theory Spec2Isabelle
  imports Complex_Main
begin

section \<open>Values and records (types.d.ts)\<close>

text \<open>
  Times are milliseconds since the epoch, as \<open>Date.getTime()\<close> gives them. A date
  field holds either a \<open>Date\<close> object or, once the record has been through
  \<open>JSON.stringify\<close> and \<open>JSON.parse\<close> (LocalStorage.writeJsonFile and
  readJsonFile), the ISO string \<open>Date.prototype.toJSON\<close> wrote for it: JSON.parse
  is called without a reviver and gives the string back, not a Date.
  Timestamps and numbers of days are whole numbers: on them the double-precision
  arithmetic of the code is exact, and a fractional number of days is not modelled. A
  capacity (\<open>maxActivations\<close>) is any finite number: the code only compares it and
  tests it for 0. The infinities are not modelled, and NaN only as an argument of
  createPremiumCode. A property that is undefined is None. The clock reads a time
  within the range of \<open>Date\<close>. A failure of the file system or of the database
  connection is not modelled.
\<close>

datatype js_date = DateObj int | IsoString int

text \<open>\<open>new Date(x).getTime()\<close>: a Date is copied, an ISO string is parsed back.\<close>

fun getTime :: "js_date \<Rightarrow> int" where
  "getTime (DateObj t) = t"
| "getTime (IsoString t) = t"

text \<open>What JSON.stringify followed by JSON.parse leaves of a date field.\<close>

fun toJSON :: "js_date \<Rightarrow> js_date" where
  "toJSON (DateObj t) = IsoString t"
| "toJSON (IsoString t) = IsoString t"

text \<open>Mongoose casts a field of schema type Date to a Date.\<close>

fun castDate :: "js_date \<Rightarrow> js_date" where
  "castDate (DateObj t) = DateObj t"
| "castDate (IsoString t) = DateObj t"

text \<open>
  \<open>x > new Date()\<close> and \<open>x < new Date()\<close> with the clock at \<open>now\<close>. The
  relational operators convert both sides to primitives with hint number: a Date gives
  its time value; a string stays a string, and since the other side is a number it is
  converted with ToNumber, which gives NaN for an ISO date string, and every comparison
  with NaN is false.
\<close>

fun gt_now :: "js_date \<Rightarrow> int \<Rightarrow> bool" where
  "gt_now (DateObj t) now = (t > now)"
| "gt_now (IsoString t) now = False"

fun lt_now :: "js_date \<Rightarrow> int \<Rightarrow> bool" where
  "lt_now (DateObj t) now = (t < now)"
| "lt_now (IsoString t) now = False"

text \<open>
  The Date object that \<open>new Date(t)\<close> makes for a number \<open>t\<close> of milliseconds:
  beyond 8.64e15 ms on either side of the epoch it is an Invalid Date, whose time value
  is NaN. That is also what \<open>new Date(NaN)\<close> makes.
\<close>

datatype date_obj = ValidDate int | InvalidDate

definition new_Date :: "int \<Rightarrow> date_obj" where
  "new_Date t =
     (if - 8640000000000000 \<le> t \<and> t \<le> 8640000000000000 then ValidDate t else InvalidDate)"

text \<open>IPremium. The field \<open>isPremium\<close> is \<open>isPremium_fld\<close> here.\<close>

record premium =
  entityId :: string
  isPremium_fld :: bool
  expiresAt :: "js_date option"
  activatedBy :: "string option"
  activatedAt :: "js_date option"

text \<open>
  One element of IPremiumCode.activations. The entity id is optional because the
  Mongoose schema of the collection declares \<open>guildId\<close> and \<open>activatedAt\<close>
  only, so a stored activation has no \<open>entityId\<close> there.
\<close>

record activation =
  act_entityId :: "string option"
  act_activatedAt :: js_date

text \<open>
  IPremiumCode. \<open>duration\<close> and \<open>maxActivations\<close> are undefined in a code that was
  created from a configuration whose default is undefined.
\<close>

record premium_code =
  code :: string
  duration :: "int option"
  maxActivations :: "real option"
  activations :: "activation list"
  createdBy :: string
  createdAt :: js_date

text \<open>
  The manager's \<open>config\<close>, declared Required<IPremiumConfig>; the field
  \<open>preloadTables\<close> is \<open>preloadTables_cfg\<close>. A field is undefined (None) when the
  constructor was given the property with the value undefined.
\<close>

record config =
  maxActivationsPerCode :: "real option"
  cacheTTL :: "int option"
  preloadTables_cfg :: "bool option"
  codeLength :: "int option"
  defaultPremiumDuration :: "int option"

datatype backend = Mongo | Local

text \<open>
  The constructor's argument: IPremiumConfig with the storage kind. An optional property
  is left out, or is there with the value undefined, or is there with a value.
\<close>

datatype 'a setting = Absent | Undefined | Given 'a

record user_config =
  u_storage :: backend
  u_localDataDir :: "string option"
  u_maxActivationsPerCode :: "real setting"
  u_cacheTTL :: "int setting"
  u_preloadTables :: "bool setting"
  u_codeLength :: "int setting"
  u_defaultPremiumDuration :: "int setting"

text \<open>
  An optional number argument (\<open>duration?: number\<close>): left out or undefined, NaN, or a
  number.
\<close>

datatype 'a number_arg = Omitted | NaN | Num 'a

datatype error =
  EntityNotPremium
| ListenerError nat
| ValidationError
| CastError
| DuplicateKey string
| DocumentNotFound

section \<open>The storage implementations\<close>

text \<open>\<open>Array.prototype.findIndex\<close>, with None for -1.\<close>

fun findIndex :: "('a \<Rightarrow> bool) \<Rightarrow> 'a list \<Rightarrow> nat option" where
  "findIndex P [] = None"
| "findIndex P (x # xs) = (if P x then Some 0 else map_option Suc (findIndex P xs))"

subsection \<open>LocalStorage\<close>

text \<open>
  A file is the list of records last written to it, in the form JSON.parse reads back;
  a missing file reads as the empty list.
\<close>

definition json_premium :: "premium \<Rightarrow> premium" where
  "json_premium p =
     p\<lparr>expiresAt := map_option toJSON (expiresAt p),
       activatedAt := map_option toJSON (activatedAt p)\<rparr>"

definition json_activation :: "activation \<Rightarrow> activation" where
  "json_activation a = a\<lparr>act_activatedAt := toJSON (act_activatedAt a)\<rparr>"

definition json_code :: "premium_code \<Rightarrow> premium_code" where
  "json_code c =
     c\<lparr>activations := map json_activation (activations c),
       createdAt := toJSON (createdAt c)\<rparr>"

definition LocalStorage_findPremium :: "premium list \<Rightarrow> string \<Rightarrow> premium option" where
  "LocalStorage_findPremium file eid = find (\<lambda>p. entityId p = eid) file"

definition LocalStorage_savePremium :: "premium \<Rightarrow> premium list \<Rightarrow> premium list" where
  "LocalStorage_savePremium p file =
     map json_premium
       (case findIndex (\<lambda>q. entityId q = entityId p) file of
          Some i \<Rightarrow> file[i := p]
        | None \<Rightarrow> file @ [p])"

definition LocalStorage_findPremiumCode ::
  "premium_code list \<Rightarrow> string \<Rightarrow> premium_code option" where
  "LocalStorage_findPremiumCode file c = find (\<lambda>pc. code pc = c) file"

text \<open>\<open>{...old, ...new}\<close>: every field of IPremiumCode is taken from the new object.\<close>

definition spread_code :: "premium_code \<Rightarrow> premium_code \<Rightarrow> premium_code" where
  "spread_code old new =
     old\<lparr>code := code new, duration := duration new,
         maxActivations := maxActivations new, activations := activations new,
         createdBy := createdBy new, createdAt := createdAt new\<rparr>"

definition LocalStorage_savePremiumCode ::
  "premium_code \<Rightarrow> premium_code list \<Rightarrow> premium_code list" where
  "LocalStorage_savePremiumCode pc file =
     map json_code
       (case findIndex (\<lambda>c. code c = code pc) file of
          Some i \<Rightarrow> file[i := spread_code (file ! i) pc]
        | None \<Rightarrow> file @ [pc])"

definition LocalStorage_findExpiredPremiums :: "premium list \<Rightarrow> int \<Rightarrow> premium list" where
  "LocalStorage_findExpiredPremiums file now =
     filter (\<lambda>p. isPremium_fld p \<and>
                  (case expiresAt p of None \<Rightarrow> False | Some d \<Rightarrow> lt_now d now)) file"

subsection \<open>MongoStorage\<close>

text \<open>
  A collection is the list of its documents in insertion order. Mongoose casts every
  value to its schema type; the activations subschema has no path \<open>entityId\<close>, and a
  path that the schema does not declare is not stored.
\<close>

definition mongo_premium :: "premium \<Rightarrow> premium" where
  "mongo_premium p =
     p\<lparr>expiresAt := map_option castDate (expiresAt p),
       activatedAt := map_option castDate (activatedAt p)\<rparr>"

definition mongo_activation :: "activation \<Rightarrow> activation" where
  "mongo_activation a =
     \<lparr>act_entityId = None, act_activatedAt = castDate (act_activatedAt a)\<rparr>"

definition mongo_code :: "premium_code \<Rightarrow> premium_code" where
  "mongo_code c =
     c\<lparr>activations := map mongo_activation (activations c),
       createdAt := castDate (createdAt c)\<rparr>"

definition MongoStorage_findPremium :: "premium list \<Rightarrow> string \<Rightarrow> premium option" where
  "MongoStorage_findPremium coll eid = find (\<lambda>p. entityId p = eid) coll"

text \<open>\<open>findOneAndUpdate({entityId}, premium, {upsert: true})\<close>.\<close>

definition MongoStorage_savePremium :: "premium \<Rightarrow> premium list \<Rightarrow> premium list" where
  "MongoStorage_savePremium p coll =
     (case findIndex (\<lambda>q. entityId q = entityId p) coll of
        Some i \<Rightarrow> coll[i := mongo_premium p]
      | None \<Rightarrow> coll @ [mongo_premium p])"

definition MongoStorage_findPremiumCode ::
  "premium_code list \<Rightarrow> string \<Rightarrow> premium_code option" where
  "MongoStorage_findPremiumCode coll c = find (\<lambda>pc. code pc = c) coll"

text \<open>
  What the caller hands to the storage: an object literal it has built
  (createPremiumCode), or the object that the storage's find returned, modified
  (redeemPremiumCode). IStorage gives both the type IPremiumCode, but
  \<open>Model.create\<close> tells them apart: an object that is not a document of the model is
  wrapped in a new document, validated and inserted, and the unique index on \<open>code\<close>
  rejects a second document with a stored code; a document that findOne returned is
  saved in place. The schema requires \<open>code\<close>, \<open>createdBy\<close>, \<open>duration\<close> and
  \<open>maxActivations\<close>; the required validator rejects undefined and, for a string
  path, the empty string.
\<close>

datatype origin = Literal | Loaded

definition MongoStorage_savePremiumCode ::
  "origin \<Rightarrow> premium_code \<Rightarrow> premium_code list \<Rightarrow> error + premium_code list" where
  "MongoStorage_savePremiumCode orig pc coll =
     (case orig of
        Literal \<Rightarrow>
          if code pc = [] \<or> createdBy pc = [] \<or> duration pc = None \<or> maxActivations pc = None
          then Inl ValidationError
          else if find (\<lambda>c. code c = code pc) coll \<noteq> None then Inl (DuplicateKey (code pc))
          else Inr (coll @ [mongo_code pc])
      | Loaded \<Rightarrow>
          (case findIndex (\<lambda>c. code c = code pc) coll of
             Some i \<Rightarrow> Inr (coll[i := mongo_code pc])
           | None \<Rightarrow> Inl DocumentNotFound))"

text \<open>\<open>find({isPremium: true, expiresAt: {$lt: new Date()}})\<close>: a null never matches \<open>$lt\<close>.\<close>

definition MongoStorage_findExpiredPremiums :: "premium list \<Rightarrow> int \<Rightarrow> premium list" where
  "MongoStorage_findExpiredPremiums coll now =
     filter (\<lambda>p. isPremium_fld p \<and>
                  (case expiresAt p of None \<Rightarrow> False | Some d \<Rightarrow> getTime d < now)) coll"

subsection \<open>IStorage: the call goes to the implementation the manager holds\<close>

definition findPremium :: "backend \<Rightarrow> premium list \<Rightarrow> string \<Rightarrow> premium option" where
  "findPremium b ps eid =
     (case b of Mongo \<Rightarrow> MongoStorage_findPremium ps eid
              | Local \<Rightarrow> LocalStorage_findPremium ps eid)"

definition savePremium :: "backend \<Rightarrow> premium \<Rightarrow> premium list \<Rightarrow> premium list" where
  "savePremium b p ps =
     (case b of Mongo \<Rightarrow> MongoStorage_savePremium p ps
              | Local \<Rightarrow> LocalStorage_savePremium p ps)"

text \<open>
  savePremium for the object \<open>p\<close> whose \<open>expiresAt\<close> the caller has set to the Date
  object \<open>d\<close>: in an object literal it has built (addPremium), or by assignment to the
  object findPremium returned (extendPremium). For an Invalid Date, \<open>JSON.stringify\<close>
  writes null. Mongoose cannot cast an Invalid Date to the schema type Date: in the
  update built from a literal the cast fails and \<open>findOneAndUpdate\<close> rejects; the
  assignment to a path of a loaded document records the failed cast for a later
  validation and leaves the path as it was, and \<open>findOneAndUpdate\<close>, which does not
  validate the document, writes it with its former \<open>expiresAt\<close>.
\<close>

definition savePremium_dated ::
  "backend \<Rightarrow> origin \<Rightarrow> premium \<Rightarrow> date_obj \<Rightarrow> premium list \<Rightarrow> error + premium list" where
  "savePremium_dated b orig p d ps =
     (case d of
        ValidDate t \<Rightarrow> Inr (savePremium b (p\<lparr>expiresAt := Some (DateObj t)\<rparr>) ps)
      | InvalidDate \<Rightarrow>
          (case b of
             Local \<Rightarrow> Inr (savePremium b (p\<lparr>expiresAt := None\<rparr>) ps)
           | Mongo \<Rightarrow>
               (case orig of
                  Literal \<Rightarrow> Inl CastError
                | Loaded \<Rightarrow> Inr (savePremium b p ps))))"

definition findPremiumCode ::
  "backend \<Rightarrow> premium_code list \<Rightarrow> string \<Rightarrow> premium_code option" where
  "findPremiumCode b cs c =
     (case b of Mongo \<Rightarrow> MongoStorage_findPremiumCode cs c
              | Local \<Rightarrow> LocalStorage_findPremiumCode cs c)"

definition savePremiumCode ::
  "backend \<Rightarrow> origin \<Rightarrow> premium_code \<Rightarrow> premium_code list \<Rightarrow> error + premium_code list" where
  "savePremiumCode b orig pc cs =
     (case b of Mongo \<Rightarrow> MongoStorage_savePremiumCode orig pc cs
              | Local \<Rightarrow> Inr (LocalStorage_savePremiumCode pc cs))"

definition findExpiredPremiums :: "backend \<Rightarrow> premium list \<Rightarrow> int \<Rightarrow> premium list" where
  "findExpiredPremiums b ps now =
     (case b of Mongo \<Rightarrow> MongoStorage_findExpiredPremiums ps now
              | Local \<Rightarrow> LocalStorage_findExpiredPremiums ps now)"

section \<open>PremiumManager\<close>

text \<open>
  The five events, with their payloads. The payload of \<open>premiumCodeCreated\<close> holds
  the \<open>duration\<close> argument as it was passed.
\<close>

datatype event =
  PremiumAdded string date_obj string
| PremiumRemoved string
| PremiumCodeCreated string "int number_arg" string
| PremiumCodeRedeemed string string string
| PremiumExtended string date_obj

fun event_name :: "event \<Rightarrow> string" where
  "event_name (PremiumAdded e x a) = ''premiumAdded''"
| "event_name (PremiumRemoved e) = ''premiumRemoved''"
| "event_name (PremiumCodeCreated c d b) = ''premiumCodeCreated''"
| "event_name (PremiumCodeRedeemed e c r) = ''premiumCodeRedeemed''"
| "event_name (PremiumExtended e x) = ''premiumExtended''"

text \<open>
  A listener: a number that identifies it, and the payloads on which it throws.
\<close>

datatype listener = Listener (lid: nat) (throwsOn: "event \<Rightarrow> bool")

text \<open>
  The JavaScript values that the manager puts into its NodeCache and gets back from
  it.
\<close>

datatype cache_val =
  VUndefined
| VNull
| VBool bool
| VPremium premium
| VCode premium_code

text \<open>
  The manager (\<open>storage\<close>, \<open>config\<close>, \<open>cache\<close>, the listeners of the
  EventEmitter in registration order) together with what it acts on: the two
  collections or files. Two fields record what happened and are read by no operation:
  the events passed to \<open>emit\<close> and the listener invocations. The cache holds the
  entries that are alive; an entry whose time to live has run out is an entry deleted
  between two calls.
\<close>

record state =
  storage :: backend
  config :: config
  cache :: "string \<rightharpoonup> cache_val"
  listeners :: "(string \<times> listener) list"
  premiums :: "premium list"
  codes :: "premium_code list"
  emitted :: "event list"
  delivered :: "(nat \<times> event) list"

text \<open>
  \<open>{dflt, ...config}\<close> for one property: a property that is left out leaves the
  default, a property that is there overwrites it, also with undefined.
\<close>

definition merged :: "'a \<Rightarrow> 'a setting \<Rightarrow> 'a option" where
  "merged dflt x = (case x of Absent \<Rightarrow> Some dflt | Undefined \<Rightarrow> None | Given v \<Rightarrow> Some v)"

text \<open>
  The constructor merges the defaults with the given configuration, chooses the storage
  and creates an empty cache. \<open>ps\<close> and \<open>cs\<close> are what the database or the data
  directory holds at that moment.
\<close>

definition new_PremiumManager ::
  "user_config \<Rightarrow> premium list \<Rightarrow> premium_code list \<Rightarrow> state" where
  "new_PremiumManager ucfg ps cs =
     \<lparr>storage = u_storage ucfg,
      config =
        \<lparr>maxActivationsPerCode = merged 1 (u_maxActivationsPerCode ucfg),
         cacheTTL = merged 0 (u_cacheTTL ucfg),
         preloadTables_cfg = merged True (u_preloadTables ucfg),
         codeLength = merged 12 (u_codeLength ucfg),
         defaultPremiumDuration = merged 30 (u_defaultPremiumDuration ucfg)\<rparr>,
      cache = Map.empty,
      listeners = [],
      premiums = ps,
      codes = cs,
      emitted = [],
      delivered = []\<rparr>"

definition getCacheKey :: "string \<Rightarrow> string \<Rightarrow> string" where
  "getCacheKey type ident = type @ ''_'' @ ident"

definition cache_set :: "string \<Rightarrow> cache_val \<Rightarrow> state \<Rightarrow> state" where
  "cache_set k v s = s\<lparr>cache := (cache s)(k \<mapsto> v)\<rparr>"

definition cache_del :: "string \<Rightarrow> state \<Rightarrow> state" where
  "cache_del k s = s\<lparr>cache := (cache s)(k := None)\<rparr>"

text \<open>
  \<open>cache.get(key)\<close>: undefined for a key that is not there. For a key that is there
  NodeCache unwraps the entry: it returns the stored value when that is neither
  undefined nor null, and null otherwise.
\<close>

definition cache_get :: "state \<Rightarrow> string \<Rightarrow> cache_val" where
  "cache_get s k =
     (case cache s k of
        None \<Rightarrow> VUndefined
      | Some v \<Rightarrow> if v = VUndefined then VNull else v)"

text \<open>
  The truth value of a JavaScript value, and a cached value read at the type the caller
  declares (\<open>get<IPremium | null>\<close>, \<open>get<IPremiumCode | null>\<close>). The keys of the
  three kinds differ in their prefix, so a value of another kind never sits under a
  key; the functions are total all the same.
\<close>

fun truthy :: "cache_val \<Rightarrow> bool" where
  "truthy VUndefined = False"
| "truthy VNull = False"
| "truthy (VBool b) = b"
| "truthy (VPremium p) = True"
| "truthy (VCode c) = True"

fun as_premium :: "cache_val \<Rightarrow> premium option" where
  "as_premium (VPremium p) = Some p"
| "as_premium v = None"

fun as_code :: "cache_val \<Rightarrow> premium_code option" where
  "as_code (VCode c) = Some c"
| "as_code v = None"

definition premium_val :: "premium option \<Rightarrow> cache_val" where
  "premium_val status = (case status of None \<Rightarrow> VNull | Some p \<Rightarrow> VPremium p)"

definition code_val :: "premium_code option \<Rightarrow> cache_val" where
  "code_val info = (case info of None \<Rightarrow> VNull | Some c \<Rightarrow> VCode c)"

text \<open>
  \<open>EventEmitter.emit\<close> calls the listeners registered for the event's name, one after
  the other in registration order, in the caller's own stack: a listener that throws
  ends the call of \<open>emit\<close> with its exception.
\<close>

fun deliver :: "listener list \<Rightarrow> event \<Rightarrow> state \<Rightarrow> (error + unit) \<times> state" where
  "deliver [] ev s = (Inr (), s)"
| "deliver (l # ls) ev s =
     (let s' = s\<lparr>delivered := delivered s @ [(lid l, ev)]\<rparr>
      in if throwsOn l ev then (Inl (ListenerError (lid l)), s') else deliver ls ev s')"

definition registered :: "string \<Rightarrow> state \<Rightarrow> listener list" where
  "registered name s = map snd (filter (\<lambda>nl. fst nl = name) (listeners s))"

definition emit :: "event \<Rightarrow> state \<Rightarrow> (error + unit) \<times> state" where
  "emit ev s = deliver (registered (event_name ev) s) ev (s\<lparr>emitted := emitted s @ [ev]\<rparr>)"

definition on :: "string \<Rightarrow> listener \<Rightarrow> state \<Rightarrow> state" where
  "on name l s = s\<lparr>listeners := listeners s @ [(name, l)]\<rparr>"


definition onPremiumRemoved :: "listener \<Rightarrow> state \<Rightarrow> state" where
  "onPremiumRemoved l s = on ''premiumRemoved'' l s"

definition onPremiumCodeCreated :: "listener \<Rightarrow> state \<Rightarrow> state" where
  "onPremiumCodeCreated l s = on ''premiumCodeCreated'' l s"

definition onPremiumCodeRedeemed :: "listener \<Rightarrow> state \<Rightarrow> state" where
  "onPremiumCodeRedeemed l s = on ''premiumCodeRedeemed'' l s"

definition onPremiumExtended :: "listener \<Rightarrow> state \<Rightarrow> state" where
  "onPremiumExtended l s = on ''premiumExtended'' l s"

text \<open>
  Every operation takes the reading of the clock (\<open>now\<close>, one reading for the whole
  call) and the state, and returns its result, or the exception it ends with, and the
  state it leaves: what was written before an exception stays written.
\<close>

definition removePremium :: "string \<Rightarrow> state \<Rightarrow> (error + unit) \<times> state" where
  "removePremium eid s =
     (case findPremium (storage s) (premiums s) eid of
        None \<Rightarrow> (Inr (), s)
      | Some entity \<Rightarrow>
          (let entity' = entity\<lparr>isPremium_fld := False, expiresAt := None\<rparr>;
               s1 = s\<lparr>premiums := savePremium (storage s) entity' (premiums s)\<rparr>;
               s2 = cache_del (getCacheKey ''isPremium'' eid) s1;
               s3 = cache_del (getCacheKey ''premiumStatus'' eid) s2
           in emit (PremiumRemoved eid) s3))"

text \<open>
  The value of \<open>entity?.isPremium && (!entity.expiresAt || entity.expiresAt > new Date())\<close>:
  undefined when there is no entity.
\<close>

definition effective :: "premium option \<Rightarrow> int \<Rightarrow> cache_val" where
  "effective entity now =
     (case entity of
        None \<Rightarrow> VUndefined
      | Some e \<Rightarrow>
          VBool (isPremium_fld e \<and>
                 (case expiresAt e of None \<Rightarrow> True | Some d \<Rightarrow> gt_now d now)))"

text \<open>
  isPremium is declared to return a boolean. On a hit it returns what the cache gave,
  whatever that is; on a miss it returns \<open>isPremium || false\<close>, a boolean, and caches
  \<open>isPremium\<close> itself.
\<close>

definition isPremium :: "string \<Rightarrow> int \<Rightarrow> state \<Rightarrow> (error + cache_val) \<times> state" where
  "isPremium eid now s =
     (let cacheKey = getCacheKey ''isPremium'' eid;
          cachedResult = cache_get s cacheKey
      in if cachedResult \<noteq> VUndefined then (Inr cachedResult, s)
         else
           (let entity = findPremium (storage s) (premiums s) eid;
                isP = effective entity now
            in if \<not> truthy isP \<and> (case entity of None \<Rightarrow> False | Some e \<Rightarrow> isPremium_fld e)
               then (case removePremium eid s of
                       (Inl err, s1) \<Rightarrow> (Inl err, s1)
                     | (Inr u, s1) \<Rightarrow> (Inr (VBool (truthy isP)), cache_set cacheKey isP s1))
               else (Inr (VBool (truthy isP)), cache_set cacheKey isP s)))"

text \<open>
  \<open>dur\<close> is the \<open>duration\<close> argument: a number of days, or undefined, which is what
  redeemPremiumCode passes for a code that has no duration; the product and the sum
  are then NaN. When the storage rejects the entitlement, addPremium ends there, before
  the cache and the event.
\<close>

definition addPremium ::
  "string \<Rightarrow> int option \<Rightarrow> string \<Rightarrow> int \<Rightarrow> state \<Rightarrow> (error + unit) \<times> state" where
  "addPremium eid dur who now s =
     (let expires =
            (case dur of
               None \<Rightarrow> InvalidDate
             | Some d \<Rightarrow> new_Date (now + d * 24 * 60 * 60 * 1000))
      in case savePremium_dated (storage s) Literal
                \<lparr>entityId = eid, isPremium_fld = True, expiresAt = None,
                 activatedBy = Some who, activatedAt = Some (DateObj now)\<rparr>
                expires (premiums s) of
           Inl err \<Rightarrow> (Inl err, s)
         | Inr ps \<Rightarrow>
             (let s1 = s\<lparr>premiums := ps\<rparr>;
                  s2 = cache_del (getCacheKey ''isPremium'' eid) s1;
                  s3 = cache_del (getCacheKey ''premiumStatus'' eid) s2
              in emit (PremiumAdded eid expires who) s3))"

definition getPremiumStatus :: "string \<Rightarrow> state \<Rightarrow> premium option \<times> state" where
  "getPremiumStatus eid s =
     (let cacheKey = getCacheKey ''premiumStatus'' eid;
          cachedResult = cache_get s cacheKey
      in if cachedResult \<noteq> VUndefined then (as_premium cachedResult, s)
         else
           (let status = findPremium (storage s) (premiums s) eid
            in (status, cache_set cacheKey (premium_val status) s)))"

text \<open>\<open>Math.ceil(a / b)\<close> for integers \<open>a\<close> and \<open>b > 0\<close>.\<close>

definition ceil_div :: "int \<Rightarrow> int \<Rightarrow> int" where
  "ceil_div a b = - ((- a) div b)"

definition getPremiumTimeRemaining :: "string \<Rightarrow> int \<Rightarrow> state \<Rightarrow> int option \<times> state" where
  "getPremiumTimeRemaining eid now s =
     (case getPremiumStatus eid s of
        (None, s1) \<Rightarrow> (None, s1)
      | (Some status, s1) \<Rightarrow>
          if \<not> isPremium_fld status then (None, s1)
          else
            (case expiresAt status of
               None \<Rightarrow> (None, s1)
             | Some d \<Rightarrow>
                 (Some (max 0 (ceil_div (getTime d - now) (1000 * 60 * 60 * 24))), s1)))"

text \<open>
  \<open>x || dflt\<close> for an optional number argument: undefined, NaN and 0 are falsy and
  give the configured default, which may be undefined itself.
\<close>

definition falsy :: "'a::zero number_arg \<Rightarrow> bool" where
  "falsy x = (case x of Omitted \<Rightarrow> True | NaN \<Rightarrow> True | Num n \<Rightarrow> n = 0)"

definition or_default :: "'a::zero number_arg \<Rightarrow> 'a option \<Rightarrow> 'a option" where
  "or_default x dflt =
     (case x of
        Omitted \<Rightarrow> dflt
      | NaN \<Rightarrow> dflt
      | Num n \<Rightarrow> if n = 0 then dflt else Some n)"

text \<open>
  \<open>tok\<close> is the token \<open>generateCode(this.config.codeLength)\<close> returned: it comes from
  \<open>crypto.randomBytes\<close>. A call in which generateCode throws (a \<open>codeLength\<close> that
  \<open>randomBytes\<close> refuses) ends before anything else and has no token.
\<close>

definition createPremiumCode ::
  "string \<Rightarrow> string \<Rightarrow> int number_arg \<Rightarrow> real number_arg \<Rightarrow> int \<Rightarrow> state \<Rightarrow>
     (error + string) \<times> state" where
  "createPremiumCode tok who dur maxAct now s =
     (case savePremiumCode (storage s) Literal
             \<lparr>code = tok,
              duration = or_default dur (defaultPremiumDuration (config s)),
              maxActivations = or_default maxAct (maxActivationsPerCode (config s)),
              activations = [],
              createdBy = who,
              createdAt = DateObj now\<rparr>
             (codes s) of
        Inl err \<Rightarrow> (Inl err, s)
      | Inr cs \<Rightarrow>
          (case emit (PremiumCodeCreated tok dur who) (s\<lparr>codes := cs\<rparr>) of
             (Inl err, s1) \<Rightarrow> (Inl err, s1)
           | (Inr u, s1) \<Rightarrow> (Inr tok, s1)))"

text \<open>
  \<open>premiumCode.activations.length >= premiumCode.maxActivations\<close>: false when
  \<open>maxActivations\<close> is undefined.
\<close>

definition at_capacity :: "premium_code \<Rightarrow> bool" where
  "at_capacity pc =
     (case maxActivations pc of
        None \<Rightarrow> False
      | Some m \<Rightarrow> real (length (activations pc)) \<ge> m)"

definition redeemPremiumCode ::
  "string \<Rightarrow> string \<Rightarrow> string \<Rightarrow> int \<Rightarrow> state \<Rightarrow> (error + bool) \<times> state" where
  "redeemPremiumCode eid c who now s =
     (case findPremiumCode (storage s) (codes s) c of
        None \<Rightarrow> (Inr False, s)
      | Some premiumCode \<Rightarrow>
          if at_capacity premiumCode
          then (Inr False, s)
          else
            (let pc = premiumCode\<lparr>activations := activations premiumCode @
                        [\<lparr>act_entityId = Some eid, act_activatedAt = DateObj now\<rparr>]\<rparr>
             in case savePremiumCode (storage s) Loaded pc (codes s) of
                  Inl err \<Rightarrow> (Inl err, s)
                | Inr cs \<Rightarrow>
                    (case addPremium eid (duration pc) who now (s\<lparr>codes := cs\<rparr>) of
                       (Inl err, s1) \<Rightarrow> (Inl err, s1)
                     | (Inr u, s1) \<Rightarrow>
                         (case emit (PremiumCodeRedeemed eid c who) s1 of
                            (Inl err, s2) \<Rightarrow> (Inl err, s2)
                          | (Inr u', s2) \<Rightarrow> (Inr True, s2)))))"

text \<open>The loop of checkExpiredPremiums: an exception ends it.\<close>

fun removeEach :: "premium list \<Rightarrow> state \<Rightarrow> (error + unit) \<times> state" where
  "removeEach [] s = (Inr (), s)"
| "removeEach (entity # rest) s =
     (case removePremium (entityId entity) s of
        (Inl err, s') \<Rightarrow> (Inl err, s')
      | (Inr u, s') \<Rightarrow> removeEach rest s')"

definition checkExpiredPremiums :: "int \<Rightarrow> state \<Rightarrow> (error + unit) \<times> state" where
  "checkExpiredPremiums now s =
     removeEach (findExpiredPremiums (storage s) (premiums s) now) s"

definition getPremiumCodeInfo :: "string \<Rightarrow> state \<Rightarrow> premium_code option \<times> state" where
  "getPremiumCodeInfo c s =
     (let cacheKey = getCacheKey ''premiumCodeInfo'' c;
          cachedResult = cache_get s cacheKey
      in if cachedResult \<noteq> VUndefined then (as_code cachedResult, s)
         else
           (let codeInfo = findPremiumCode (storage s) (codes s) c
            in (codeInfo, cache_set cacheKey (code_val codeInfo) s)))"

definition extendPremium :: "string \<Rightarrow> int \<Rightarrow> int \<Rightarrow> state \<Rightarrow> (error + unit) \<times> state" where
  "extendPremium eid days now s =
     (case findPremium (storage s) (premiums s) eid of
        None \<Rightarrow> (Inl EntityNotPremium, s)
      | Some entity \<Rightarrow>
          if \<not> isPremium_fld entity then (Inl EntityNotPremium, s)
          else
            (let newExpiresAt =
                   (case expiresAt entity of
                      Some d \<Rightarrow> new_Date (getTime d + days * 86400000)
                    | None \<Rightarrow> new_Date (now + days * 86400000))
             in case savePremium_dated (storage s) Loaded entity newExpiresAt (premiums s) of
                  Inl err \<Rightarrow> (Inl err, s)
                | Inr ps \<Rightarrow>
                    (let s1 = s\<lparr>premiums := ps\<rparr>;
                         s2 = cache_del (getCacheKey ''isPremium'' eid) s1;
                         s3 = cache_del (getCacheKey ''premiumStatus'' eid) s2
                     in emit (PremiumExtended eid newExpiresAt) s3)))"

text \<open>
  preloadTables reads both tables and sets three keys. It is private, and clearCache
  is its only caller.
\<close>

definition preload_premium :: "premium \<Rightarrow> state \<Rightarrow> state" where
  "preload_premium p s =
     cache_set (getCacheKey ''premiumStatus'' (entityId p)) (VPremium p)
       (cache_set (getCacheKey ''isPremium'' (entityId p)) (VBool (isPremium_fld p)) s)"

definition preload_code :: "premium_code \<Rightarrow> state \<Rightarrow> state" where
  "preload_code c s = cache_set (getCacheKey ''premiumCodeInfo'' (code c)) (VCode c) s"

definition preloadTables :: "state \<Rightarrow> state" where
  "preloadTables s = fold preload_code (codes s) (fold preload_premium (premiums s) s)"

definition clearCache :: "state \<Rightarrow> state" where
  "clearCache s =
     (let s1 = s\<lparr>cache := Map.empty\<rparr>
      in if preloadTables_cfg (config s1) = Some True then preloadTables s1 else s1)"

section \<open>Sequences of calls\<close>

text \<open>
  The public operations of a manager, with their arguments and the reading of the
  clock, and the expiry of a cache entry. \<open>run\<close> gives the state a call leaves,
  whether it returns or throws.
\<close>

datatype call =
  IsPremium string int
| AddPremium string "int option" string int
| RemovePremium string
| GetPremiumStatus string
| GetPremiumTimeRemaining string int
| CreatePremiumCode string string "int number_arg" "real number_arg" int
| RedeemPremiumCode string string string int
| CheckExpiredPremiums int
| GetPremiumCodeInfo string
| ExtendPremium string int int
| ClearCache
| On string listener
| CacheEntryExpires string

fun run :: "call \<Rightarrow> state \<Rightarrow> state" where
  "run (IsPremium eid now) s = snd (isPremium eid now s)"
| "run (AddPremium eid dur who now) s = snd (addPremium eid dur who now s)"
| "run (RemovePremium eid) s = snd (removePremium eid s)"
| "run (GetPremiumStatus eid) s = snd (getPremiumStatus eid s)"
| "run (GetPremiumTimeRemaining eid now) s = snd (getPremiumTimeRemaining eid now s)"
| "run (CreatePremiumCode tok who dur maxAct now) s =
     snd (createPremiumCode tok who dur maxAct now s)"
| "run (RedeemPremiumCode eid c who now) s = snd (redeemPremiumCode eid c who now s)"
| "run (CheckExpiredPremiums now) s = snd (checkExpiredPremiums now s)"
| "run (GetPremiumCodeInfo c) s = snd (getPremiumCodeInfo c s)"
| "run (ExtendPremium eid days now) s = snd (extendPremium eid days now s)"
| "run ClearCache s = clearCache s"
| "run (On name l) s = on name l s"
| "run (CacheEntryExpires k) s = cache_del k s"

text \<open>
  \<open>activations.length <= maxActivations\<close>, which is false when \<open>maxActivations\<close> is
  undefined; and the bound that redeemPremiumCode keeps for a code whose
  \<open>maxActivations\<close> is a number: a code that has an activation has fewer than
  \<open>maxActivations + 1\<close> of them.
\<close>

definition within_capacity :: "premium_code \<Rightarrow> bool" where
  "within_capacity c =
     (case maxActivations c of
        None \<Rightarrow> False
      | Some m \<Rightarrow> real (length (activations c)) \<le> m)"

definition below_next :: "premium_code \<Rightarrow> bool" where
  "below_next c =
     (case maxActivations c of
        None \<Rightarrow> True
      | Some m \<Rightarrow> activations c = [] \<or> real (length (activations c)) < m + 1)"

section \<open>What the storage keeps, and two configurations\<close>

text \<open>The form in which a storage keeps a record that is saved to it.\<close>

definition stored_premium :: "backend \<Rightarrow> premium \<Rightarrow> premium" where
  "stored_premium b p = (case b of Mongo \<Rightarrow> mongo_premium p | Local \<Rightarrow> json_premium p)"

definition stored_code :: "backend \<Rightarrow> premium_code \<Rightarrow> premium_code" where
  "stored_code b c = (case b of Mongo \<Rightarrow> mongo_code c | Local \<Rightarrow> json_code c)"

text \<open>
  \<open>new PremiumManager({storage: "local"})\<close> and \<open>new PremiumManager({storage: "mongo"})\<close>:
  every optional setting is left out.
\<close>

definition local_defaults :: user_config where
  "local_defaults =
     \<lparr>u_storage = Local, u_localDataDir = None, u_maxActivationsPerCode = Absent,
      u_cacheTTL = Absent, u_preloadTables = Absent, u_codeLength = Absent,
      u_defaultPremiumDuration = Absent\<rparr>"

definition mongo_defaults :: user_config where
  "mongo_defaults =
     \<lparr>u_storage = Mongo, u_localDataDir = None, u_maxActivationsPerCode = Absent,
      u_cacheTTL = Absent, u_preloadTables = Absent, u_codeLength = Absent,
      u_defaultPremiumDuration = Absent\<rparr>"

section \<open>Unfolding the operations\<close>

lemmas engine_defs =
  new_PremiumManager_def merged_def createPremiumCode_def redeemPremiumCode_def
  at_capacity_def addPremium_def new_Date_def savePremium_dated_def
  removePremium_def isPremium_def extendPremium_def getPremiumStatus_def
  getPremiumTimeRemaining_def getPremiumCodeInfo_def checkExpiredPremiums_def
  clearCache_def preloadTables_def preload_premium_def preload_code_def
  emit_def registered_def on_def local_defaults_def mongo_defaults_def
  cache_set_def cache_del_def cache_get_def getCacheKey_def
  effective_def or_default_def falsy_def premium_val_def code_val_def ceil_div_def
  savePremiumCode_def savePremium_def findPremium_def findPremiumCode_def findExpiredPremiums_def
  LocalStorage_savePremiumCode_def LocalStorage_savePremium_def LocalStorage_findPremium_def
  LocalStorage_findPremiumCode_def LocalStorage_findExpiredPremiums_def
  MongoStorage_savePremiumCode_def MongoStorage_savePremium_def MongoStorage_findPremium_def
  MongoStorage_findPremiumCode_def MongoStorage_findExpiredPremiums_def
  json_code_def json_premium_def json_activation_def spread_code_def
  mongo_code_def mongo_premium_def mongo_activation_def Let_def

section \<open>What an operation leaves untouched\<close>

lemma deliver_frame:
  "deliver ls ev s = (r, s') \<Longrightarrow>
     storage s' = storage s \<and> config s' = config s \<and> cache s' = cache s \<and>
     listeners s' = listeners s \<and> premiums s' = premiums s \<and> codes s' = codes s \<and>
     emitted s' = emitted s"
  by (induction ls arbitrary: s) (auto simp: Let_def split: if_splits)

lemma emit_frame:
  "emit ev s = (r, s') \<Longrightarrow>
     storage s' = storage s \<and> config s' = config s \<and> cache s' = cache s \<and>
     listeners s' = listeners s \<and> premiums s' = premiums s \<and> codes s' = codes s \<and>
     emitted s' = emitted s @ [ev]"
  unfolding emit_def by (drule deliver_frame) simp

lemma removePremium_codes: "removePremium eid s = (r, s') \<Longrightarrow> codes s' = codes s"
  unfolding removePremium_def
  by (auto simp: Let_def cache_del_def split: option.splits dest: emit_frame)

lemma removeEach_codes: "removeEach es s = (r, s') \<Longrightarrow> codes s' = codes s"
  by (induction es arbitrary: s) (auto split: prod.splits sum.splits dest: removePremium_codes)

lemma addPremium_codes: "addPremium eid d who now s = (r, s') \<Longrightarrow> codes s' = codes s"
  unfolding addPremium_def
  by (auto simp: Let_def cache_del_def split: sum.splits dest: emit_frame)

lemma isPremium_codes: "isPremium eid now s = (r, s') \<Longrightarrow> codes s' = codes s"
  unfolding isPremium_def
  by (auto simp: Let_def cache_set_def split: if_splits prod.splits sum.splits dest: removePremium_codes)

lemma extendPremium_codes: "extendPremium eid d now s = (r, s') \<Longrightarrow> codes s' = codes s"
  unfolding extendPremium_def
  by (auto simp: Let_def cache_del_def split: option.splits if_splits sum.splits dest: emit_frame)

lemma getPremiumStatus_codes: "getPremiumStatus eid s = (r, s') \<Longrightarrow> codes s' = codes s"
  unfolding getPremiumStatus_def
  by (auto simp: Let_def cache_set_def split: if_splits)

lemma getPremiumTimeRemaining_codes: "getPremiumTimeRemaining eid now s = (r, s') \<Longrightarrow> codes s' = codes s"
  unfolding getPremiumTimeRemaining_def
  by (auto split: prod.splits option.splits if_splits dest: getPremiumStatus_codes)

lemma getPremiumCodeInfo_codes: "getPremiumCodeInfo c s = (r, s') \<Longrightarrow> codes s' = codes s"
  unfolding getPremiumCodeInfo_def
  by (auto simp: Let_def cache_set_def split: if_splits)

lemma fold_preload_premium_codes: "codes (fold preload_premium ps s) = codes s"
  by (induction ps arbitrary: s) (auto simp: preload_premium_def cache_set_def)

lemma fold_preload_code_codes: "codes (fold preload_code cs s) = codes s"
  by (induction cs arbitrary: s) (auto simp: preload_code_def cache_set_def)

lemma clearCache_codes: "codes (clearCache s) = codes s"
  by (simp add: clearCache_def preloadTables_def Let_def fold_preload_premium_codes fold_preload_code_codes)

lemma below_next_json [simp]: "below_next (json_code c) = below_next c"
  by (simp add: below_next_def json_code_def split: option.splits)

lemma below_next_mongo [simp]: "below_next (mongo_code c) = below_next c"
  by (simp add: below_next_def mongo_code_def split: option.splits)

lemma below_next_spread [simp]: "below_next (spread_code old c) = below_next c"
  by (simp add: below_next_def spread_code_def split: option.splits)

lemma savePremiumCode_below_next:
  assumes "savePremiumCode b orig pc cs = Inr cs'"
    and "below_next pc"
    and "\<forall>c\<in>set cs. below_next c"
  shows "\<forall>c\<in>set cs'. below_next c"
proof (cases b)
  case Local
  then have "cs' = LocalStorage_savePremiumCode pc cs"
    using assms(1) by (simp add: savePremiumCode_def)
  then show ?thesis
    using assms(2,3)
    by (auto simp: LocalStorage_savePremiumCode_def split: option.splits
        dest!: subsetD [OF set_update_subset_insert])
next
  case Mongo
  then have "MongoStorage_savePremiumCode orig pc cs = Inr cs'"
    using assms(1) by (simp add: savePremiumCode_def)
  then show ?thesis
    using assms(2,3)
    by (auto simp: MongoStorage_savePremiumCode_def split: origin.splits if_splits option.splits
        dest!: subsetD [OF set_update_subset_insert])
qed

lemma createPremiumCode_below_next:
  assumes "createPremiumCode tok who dur maxAct now s = (r, s')"
    and "\<forall>c\<in>set (codes s). below_next c"
  shows "\<forall>c\<in>set (codes s'). below_next c"
proof (cases "savePremiumCode (storage s) Literal
             \<lparr>code = tok,
              duration = or_default dur (defaultPremiumDuration (config s)),
              maxActivations = or_default maxAct (maxActivationsPerCode (config s)),
              activations = [],
              createdBy = who,
              createdAt = DateObj now\<rparr>
             (codes s)")
  case (Inl e)
  then have "s' = s" using assms(1) by (simp add: createPremiumCode_def)
  then show ?thesis using assms(2) by simp
next
  case (Inr cs)
  have cs: "\<forall>c\<in>set cs. below_next c"
    by (rule savePremiumCode_below_next [OF Inr _ assms(2)])
      (simp add: below_next_def split: option.splits)
  have "codes s' = cs"
    using assms(1) Inr
    by (auto simp: createPremiumCode_def split: prod.splits sum.splits dest: emit_frame)
  then show ?thesis using cs by simp
qed

lemma redeemPremiumCode_below_next:
  assumes "redeemPremiumCode eid c who now s = (r, s')"
    and "\<forall>c\<in>set (codes s). below_next c"
  shows "\<forall>c\<in>set (codes s'). below_next c"
proof (cases "findPremiumCode (storage s) (codes s) c")
  case None
  then have "s' = s" using assms(1) by (simp add: redeemPremiumCode_def)
  then show ?thesis using assms(2) by simp
next
  case (Some premiumCode)
  show ?thesis
  proof (cases "at_capacity premiumCode")
    case True
    then have "s' = s" using assms(1) Some by (simp add: redeemPremiumCode_def)
    then show ?thesis using assms(2) by simp
  next
    case False
    define pc where "pc = premiumCode\<lparr>activations := activations premiumCode @
                        [\<lparr>act_entityId = Some eid, act_activatedAt = DateObj now\<rparr>]\<rparr>"
    have pc: "below_next pc"
      using False by (auto simp: pc_def below_next_def at_capacity_def split: option.splits)
    show ?thesis
    proof (cases "savePremiumCode (storage s) Loaded pc (codes s)")
      case (Inl e)
      then have "s' = s"
        using assms(1) Some False by (simp add: redeemPremiumCode_def pc_def Let_def)
      then show ?thesis using assms(2) by simp
    next
      case (Inr cs)
      have cs: "\<forall>c\<in>set cs. below_next c"
        by (rule savePremiumCode_below_next [OF Inr pc assms(2)])
      have "codes s' = cs"
        using assms(1) Some False Inr
        by (auto simp: redeemPremiumCode_def pc_def Let_def split: prod.splits sum.splits
            dest!: emit_frame addPremium_codes)
      then show ?thesis using cs by simp
    qed
  qed
qed

lemma run_below_next:
  assumes "\<forall>c\<in>set (codes s). below_next c"
  shows "\<forall>c\<in>set (codes (run x s)). below_next c"
proof (cases x)
  case (CreatePremiumCode tok who dur maxAct now)
  then show ?thesis
    using createPremiumCode_below_next [OF _ assms, of tok who dur maxAct now]
    by (simp add: prod_eq_iff)
next
  case (RedeemPremiumCode eid c who now)
  then show ?thesis
    using redeemPremiumCode_below_next [OF _ assms, of eid c who now]
    by (simp add: prod_eq_iff)
next
  case (IsPremium eid now)
  then show ?thesis using assms isPremium_codes [of eid now s] by (simp add: prod_eq_iff)
next
  case (AddPremium eid dur who now)
  then show ?thesis using assms addPremium_codes [of eid dur who now s] by (simp add: prod_eq_iff)
next
  case (RemovePremium eid)
  then show ?thesis using assms removePremium_codes [of eid s] by (simp add: prod_eq_iff)
next
  case (GetPremiumStatus eid)
  then show ?thesis using assms getPremiumStatus_codes [of eid s] by (simp add: prod_eq_iff)
next
  case (GetPremiumTimeRemaining eid now)
  then show ?thesis using assms getPremiumTimeRemaining_codes [of eid now s] by (simp add: prod_eq_iff)
next
  case (CheckExpiredPremiums now)
  then show ?thesis
    using assms removeEach_codes [of "findExpiredPremiums (storage s) (premiums s) now" s]
    by (simp add: prod_eq_iff checkExpiredPremiums_def)
next
  case (GetPremiumCodeInfo c)
  then show ?thesis using assms getPremiumCodeInfo_codes [of c s] by (simp add: prod_eq_iff)
next
  case (ExtendPremium eid days now)
  then show ?thesis using assms extendPremium_codes [of eid days now s] by (simp add: prod_eq_iff)
next
  case ClearCache
  then show ?thesis using assms by (simp add: clearCache_codes)
next
  case (On name l)
  then show ?thesis using assms by (simp add: on_def)
next
  case (CacheEntryExpires k)
  then show ?thesis using assms by (simp add: cache_del_def)
qed

lemma fold_run_below_next:
  "\<forall>c\<in>set (codes s). below_next c \<Longrightarrow>
   \<forall>c\<in>set (codes (fold run calls s)). below_next c"
proof (induction calls arbitrary: s)
  case Nil
  then show ?case by simp
next
  case (Cons x xs)
  show ?case
    using Cons.IH [OF run_below_next [OF Cons.prems, of x]] by simp
qed

section \<open>Capacity of a redemption code\<close>

lemma whole_below_next:
  assumes "m \<in> \<int>" and "real n < m + 1"
  shows "real n \<le> m"
proof -
  obtain k where k: "m = of_int k" using assms(1) by (rule Ints_cases)
  have "real_of_int (int n) < real_of_int (k + 1)" using assms(2) by (simp add: k)
  then have "int n < k + 1" by (simp only: of_int_less_iff)
  then have "int n \<le> k" by simp
  then have "real_of_int (int n) \<le> real_of_int k" by (simp only: of_int_le_iff)
  then show ?thesis by (simp add: k)
qed

text \<open>
  C1, as amended. In every state that a sequence of calls reaches from a manager
  constructed over empty storage, a stored code whose \<open>maxActivations\<close> is a number
  \<open>m\<close> has no activations or fewer than \<open>m + 1\<close> of them; when \<open>m\<close> is a whole
  number that is not negative it has at most \<open>m\<close>. redeemPremiumCode returns false
  and leaves the whole state as it is (the codes, the entitlements, the cache, the
  events) when the code is unknown and when the number of its activations has reached
  \<open>maxActivations\<close>.
\<close>

theorem capacity_invariant_and_rejection:
  "(\<forall>pc\<in>set (codes (fold run calls (new_PremiumManager ucfg [] []))).
      \<forall>m. maxActivations pc = Some m \<longrightarrow>
        (activations pc = [] \<or> real (length (activations pc)) < m + 1) \<and>
        (m \<in> \<int> \<and> 0 \<le> m \<longrightarrow> real (length (activations pc)) \<le> m)) \<and>
   (findPremiumCode (storage s) (codes s) c = None \<longrightarrow>
      redeemPremiumCode eid c who now s = (Inr False, s)) \<and>
   (\<forall>pc m. findPremiumCode (storage s) (codes s) c = Some pc \<and>
         maxActivations pc = Some m \<and> real (length (activations pc)) \<ge> m \<longrightarrow>
      redeemPremiumCode eid c who now s = (Inr False, s))"
proof (rule conjI)
  have inv: "\<forall>pc\<in>set (codes (fold run calls (new_PremiumManager ucfg [] []))). below_next pc"
    by (rule fold_run_below_next) (simp add: new_PremiumManager_def)
  show "\<forall>pc\<in>set (codes (fold run calls (new_PremiumManager ucfg [] []))).
      \<forall>m. maxActivations pc = Some m \<longrightarrow>
        (activations pc = [] \<or> real (length (activations pc)) < m + 1) \<and>
        (m \<in> \<int> \<and> 0 \<le> m \<longrightarrow> real (length (activations pc)) \<le> m)"
  proof (intro ballI allI impI)
    fix pc m
    assume pc: "pc \<in> set (codes (fold run calls (new_PremiumManager ucfg [] [])))"
      and m: "maxActivations pc = Some m"
    have b: "activations pc = [] \<or> real (length (activations pc)) < m + 1"
      using inv pc m by (auto simp: below_next_def)
    have w: "real (length (activations pc)) \<le> m" if "m \<in> \<int> \<and> 0 \<le> m"
    proof (cases "activations pc = []")
      case True
      then show ?thesis using that by simp
    next
      case False
      then show ?thesis using b that whole_below_next by blast
    qed
    show "(activations pc = [] \<or> real (length (activations pc)) < m + 1) \<and>
        (m \<in> \<int> \<and> 0 \<le> m \<longrightarrow> real (length (activations pc)) \<le> m)"
      using b w by blast
  qed
next
  show "(findPremiumCode (storage s) (codes s) c = None \<longrightarrow>
      redeemPremiumCode eid c who now s = (Inr False, s)) \<and>
   (\<forall>pc m. findPremiumCode (storage s) (codes s) c = Some pc \<and>
         maxActivations pc = Some m \<and> real (length (activations pc)) \<ge> m \<longrightarrow>
      redeemPremiumCode eid c who now s = (Inr False, s))"
    by (auto simp: redeemPremiumCode_def at_capacity_def)
qed

text \<open>
  C1 at a concrete state, on local storage: a code created with the default capacity 1
  and redeemed once holds one activation; a further redemption of it, and the
  redemption of an unknown code, return false and change nothing.
\<close>

theorem capacity_invariant_and_rejection_witness:
  "(let S = fold run
        [CreatePremiumCode ''abc'' ''admin'' Omitted Omitted 0,
         RedeemPremiumCode ''u1'' ''abc'' ''u1'' 5]
        (new_PremiumManager local_defaults [] [])
    in (\<exists>pc. pc \<in> set (codes S) \<and> maxActivations pc = Some 1 \<and>
             length (activations pc) = 1 \<and>
             real (length (activations pc)) < 1 + 1 \<and>
             real (length (activations pc)) \<le> 1) \<and>
       redeemPremiumCode ''u2'' ''zzz'' ''u2'' 9 S = (Inr False, S) \<and>
       redeemPremiumCode ''u2'' ''abc'' ''u2'' 9 S = (Inr False, S))"
proof -
  let ?calls = "[CreatePremiumCode ''abc'' ''admin'' Omitted Omitted 0,
                 RedeemPremiumCode ''u1'' ''abc'' ''u1'' 5]"
  define S where "S = fold run ?calls (new_PremiumManager local_defaults [] [])"
  let ?pc = "\<lparr>code = ''abc'', duration = Some 30, maxActivations = Some 1,
               activations = [\<lparr>act_entityId = Some ''u1'', act_activatedAt = IsoString 5\<rparr>],
               createdBy = ''admin'', createdAt = IsoString 0\<rparr>"
  have cs: "codes S = [?pc]" and st: "storage S = Local"
    by (simp_all add: S_def engine_defs)
  have mem: "?pc \<in> set (codes (fold run ?calls (new_PremiumManager local_defaults [] [])))"
    unfolding S_def [symmetric] cs by simp
  have unknown: "findPremiumCode (storage S) (codes S) ''zzz'' = None"
    unfolding cs st by (simp add: findPremiumCode_def LocalStorage_findPremiumCode_def)
  have full: "findPremiumCode (storage S) (codes S) ''abc'' = Some ?pc \<and>
      maxActivations ?pc = Some 1 \<and> real (length (activations ?pc)) \<ge> 1"
    unfolding cs st by (simp add: findPremiumCode_def LocalStorage_findPremiumCode_def)
  note t1 = capacity_invariant_and_rejection
    [of ?calls local_defaults S "''zzz''" "''u2''" "''u2''" 9]
  note t2 = capacity_invariant_and_rejection
    [of ?calls local_defaults S "''abc''" "''u2''" "''u2''" 9]
  have m: "maxActivations ?pc = Some 1" and act: "activations ?pc \<noteq> []"
    and whole: "(1::real) \<in> \<int> \<and> (0::real) \<le> 1"
    by simp_all
  have a: "(activations ?pc = [] \<or> real (length (activations ?pc)) < 1 + 1) \<and>
      real (length (activations ?pc)) \<le> 1"
    using t1 mem m whole by blast
  have a1: "real (length (activations ?pc)) < 1 + 1"
    using a act by blast
  have a2: "real (length (activations ?pc)) \<le> 1"
    using a by blast
  have b: "redeemPremiumCode ''u2'' ''zzz'' ''u2'' 9 S = (Inr False, S)"
    using t1 unknown by blast
  have c: "redeemPremiumCode ''u2'' ''abc'' ''u2'' 9 S = (Inr False, S)"
    using t2 full by blast
  have len: "length (activations ?pc) = 1" by simp
  have ex: "?pc \<in> set (codes S) \<and> maxActivations ?pc = Some 1 \<and>
             length (activations ?pc) = 1 \<and>
             real (length (activations ?pc)) < 1 + 1 \<and>
             real (length (activations ?pc)) \<le> 1"
    using mem [folded S_def] m len a1 a2 by (intro conjI)
  have "\<exists>pc. pc \<in> set (codes S) \<and> maxActivations pc = Some 1 \<and>
             length (activations pc) = 1 \<and>
             real (length (activations pc)) < 1 + 1 \<and>
             real (length (activations pc)) \<le> 1"
    by (rule exI [of _ ?pc]) (rule ex)
  then show ?thesis
    unfolding Let_def S_def [symmetric] using b c by (intro conjI)
qed

text \<open>
  C1 as stated fails: createPremiumCode stores the \<open>maxActivations\<close> it is given as
  it is. A code created with the capacity 1.5 is redeemed twice, since neither
  \<open>0 >= 1.5\<close> nor \<open>1 >= 1.5\<close> holds, and then has 2 activations. So does a code
  created with the default capacity by a manager that was constructed with
  \<open>maxActivationsPerCode: undefined\<close>: its capacity is undefined, and
  \<open>activations.length >= undefined\<close> never holds.
\<close>

theorem capacity_invariant_counterexample:
  "(let S = fold run
        [CreatePremiumCode ''abc'' ''admin'' Omitted (Num (3 / 2)) 0,
         RedeemPremiumCode ''u1'' ''abc'' ''u1'' 5,
         RedeemPremiumCode ''u2'' ''abc'' ''u2'' 6]
        (new_PremiumManager local_defaults [] []);
        U = fold run
        [CreatePremiumCode ''abc'' ''admin'' Omitted Omitted 0,
         RedeemPremiumCode ''u1'' ''abc'' ''u1'' 5,
         RedeemPremiumCode ''u2'' ''abc'' ''u2'' 6]
        (new_PremiumManager (local_defaults\<lparr>u_maxActivationsPerCode := Undefined\<rparr>) [] [])
    in map (\<lambda>c. (length (activations c), maxActivations c)) (codes S) = [(2, Some (3 / 2))] \<and>
       \<not> (\<forall>c\<in>set (codes S). within_capacity c) \<and>
       map (\<lambda>c. (length (activations c), maxActivations c)) (codes U) = [(2, None)] \<and>
       \<not> (\<forall>c\<in>set (codes U). within_capacity c))"
proof -
  define S where "S = fold run
        [CreatePremiumCode ''abc'' ''admin'' Omitted (Num (3 / 2)) 0,
         RedeemPremiumCode ''u1'' ''abc'' ''u1'' 5,
         RedeemPremiumCode ''u2'' ''abc'' ''u2'' 6]
        (new_PremiumManager local_defaults [] [])"
  define U where "U = fold run
        [CreatePremiumCode ''abc'' ''admin'' Omitted Omitted 0,
         RedeemPremiumCode ''u1'' ''abc'' ''u1'' 5,
         RedeemPremiumCode ''u2'' ''abc'' ''u2'' 6]
        (new_PremiumManager (local_defaults\<lparr>u_maxActivationsPerCode := Undefined\<rparr>) [] [])"
  have cs: "codes S =
      [\<lparr>code = ''abc'', duration = Some 30, maxActivations = Some (3 / 2),
        activations = [\<lparr>act_entityId = Some ''u1'', act_activatedAt = IsoString 5\<rparr>,
                       \<lparr>act_entityId = Some ''u2'', act_activatedAt = IsoString 6\<rparr>],
        createdBy = ''admin'', createdAt = IsoString 0\<rparr>]"
    by (simp add: S_def engine_defs)
  have cu: "codes U =
      [\<lparr>code = ''abc'', duration = Some 30, maxActivations = None,
        activations = [\<lparr>act_entityId = Some ''u1'', act_activatedAt = IsoString 5\<rparr>,
                       \<lparr>act_entityId = Some ''u2'', act_activatedAt = IsoString 6\<rparr>],
        createdBy = ''admin'', createdAt = IsoString 0\<rparr>]"
    by (simp add: U_def engine_defs)
  have a: "map (\<lambda>c. (length (activations c), maxActivations c)) (codes S) = [(2, Some (3 / 2))]"
    unfolding cs by simp
  have b: "\<not> (\<forall>c\<in>set (codes S). within_capacity c)"
    unfolding cs by (simp add: within_capacity_def)
  have c: "map (\<lambda>c. (length (activations c), maxActivations c)) (codes U) = [(2, None)]"
    unfolding cu by simp
  have d: "\<not> (\<forall>c\<in>set (codes U). within_capacity c)"
    unfolding cu by (simp add: within_capacity_def)
  show ?thesis
    unfolding Let_def S_def [symmetric] U_def [symmetric] by (intro conjI a b c d)
qed

section \<open>Looking up what was saved\<close>

lemma findIndex_None: "(findIndex P xs = None) = (find P xs = None)"
  by (induction xs) auto

lemma findIndex_None_find: "findIndex P xs = None \<Longrightarrow> find P xs = None"
  by (simp add: findIndex_None)

lemma find_Some_sat: "find P xs = Some x \<Longrightarrow> P x"
  by (induction xs) (auto split: if_splits)

lemma find_update_at: "findIndex P xs = Some i \<Longrightarrow> P y \<Longrightarrow> find P (xs[i := y]) = Some y"
proof (induction xs arbitrary: i)
  case Nil
  then show ?case by simp
next
  case (Cons x xs)
  show ?case
  proof (cases "P x")
    case True
    then show ?thesis using Cons.prems by simp
  next
    case False
    then obtain j where j: "findIndex P xs = Some j" "i = Suc j"
      using Cons.prems(1) by auto
    then show ?thesis using False Cons.IH [OF j(1) Cons.prems(2)] by simp
  qed
qed

lemma find_append_new: "find P xs = None \<Longrightarrow> P y \<Longrightarrow> find P (xs @ [y]) = Some y"
  by (induction xs) (auto split: if_splits)

lemma find_map_inv: "(\<And>x. P (f x) = P x) \<Longrightarrow> find P (map f xs) = map_option f (find P xs)"
  by (induction xs) auto

lemma entityId_json [simp]: "entityId (json_premium p) = entityId p"
  by (simp add: json_premium_def)

lemma entityId_mongo [simp]: "entityId (mongo_premium p) = entityId p"
  by (simp add: mongo_premium_def)

lemma findPremium_savePremium:
  "findPremium b (savePremium b p ps) (entityId p) = Some (stored_premium b p)"
proof (cases b)
  case Mongo
  show ?thesis
  proof (cases "findIndex (\<lambda>q. entityId q = entityId p) ps")
    case None
    then show ?thesis
      using Mongo findIndex_None_find [OF None]
      by (simp add: findPremium_def savePremium_def MongoStorage_findPremium_def
          MongoStorage_savePremium_def stored_premium_def find_append_new)
  next
    case (Some i)
    then show ?thesis
      using Mongo
      by (simp add: findPremium_def savePremium_def MongoStorage_findPremium_def
          MongoStorage_savePremium_def stored_premium_def find_update_at)
  qed
next
  case Local
  have inv: "\<And>x. (entityId (json_premium x) = entityId p) = (entityId x = entityId p)"
    by simp
  show ?thesis
  proof (cases "findIndex (\<lambda>q. entityId q = entityId p) ps")
    case None
    then show ?thesis
      using Local findIndex_None_find [OF None]
      by (simp add: findPremium_def savePremium_def LocalStorage_findPremium_def
          LocalStorage_savePremium_def stored_premium_def find_append_new
          find_map_inv [of "\<lambda>q. entityId q = entityId p" json_premium, OF inv]
          del: map_append)
  next
    case (Some i)
    then show ?thesis
      using Local
      by (simp add: findPremium_def savePremium_def LocalStorage_findPremium_def
          LocalStorage_savePremium_def stored_premium_def find_update_at
          find_map_inv [of "\<lambda>q. entityId q = entityId p" json_premium, OF inv])
  qed
qed

lemma findPremium_entityId: "findPremium b ps eid = Some e \<Longrightarrow> entityId e = eid"
  by (cases b)
    (auto simp: findPremium_def MongoStorage_findPremium_def LocalStorage_findPremium_def
      dest: find_Some_sat)

lemma getTime_toJSON [simp]: "getTime (toJSON d) = getTime d"
  by (cases d) simp_all

lemma getTime_castDate [simp]: "getTime (castDate d) = getTime d"
  by (cases d) simp_all


lemma isPremium_fld_stored [simp]: "isPremium_fld (stored_premium b p) = isPremium_fld p"
  by (cases b) (simp_all add: stored_premium_def mongo_premium_def json_premium_def)

lemma expiresAt_stored_None [simp]:
  "(expiresAt (stored_premium b p) = None) = (expiresAt p = None)"
  by (cases b) (simp_all add: stored_premium_def mongo_premium_def json_premium_def)

lemma code_json [simp]: "code (json_code c) = code c"
  by (simp add: json_code_def)

lemma code_mongo [simp]: "code (mongo_code c) = code c"
  by (simp add: mongo_code_def)

lemma spread_code_eq [simp]: "spread_code old new = new"
  by (simp add: spread_code_def)


lemma stored_code_fields [simp]:
  "duration (stored_code b c) = duration c"
  "maxActivations (stored_code b c) = maxActivations c"
  "createdBy (stored_code b c) = createdBy c"
  "length (activations (stored_code b c)) = length (activations c)"
  by (cases b; simp add: stored_code_def mongo_code_def json_code_def)+

lemma activations_stored_Nil [simp]:
  "(activations (stored_code b c) = []) = (activations c = [])"
  by (cases b) (simp_all add: stored_code_def mongo_code_def json_code_def)

lemma deliver_ok: "\<forall>l\<in>set ls. \<not> throwsOn l ev \<Longrightarrow> fst (deliver ls ev s) = Inr ()"
  by (induction ls arbitrary: s) (simp_all add: Let_def)

lemma gt_now_past: "getTime d \<le> now \<Longrightarrow> \<not> gt_now d now"
  by (cases d) simp_all

section \<open>extendPremium\<close>






section \<open>createPremiumCode\<close>






section \<open>isPremium on an entitlement that has run out\<close>

lemma deliver_throws:
  "\<exists>l\<in>set ls. throwsOn l ev \<Longrightarrow> \<exists>n. fst (deliver ls ev s) = Inl (ListenerError n)"
  by (induction ls arbitrary: s) (auto simp add: Let_def)

lemma isPremium_expired_on_miss:
  assumes miss: "cache s (getCacheKey ''isPremium'' eid) = None"
    and found: "findPremium (storage s) (premiums s) eid = Some e"
    and flag: "isPremium_fld e"
    and exp: "expiresAt e = Some d"
    and past: "getTime d \<le> now"
  shows "isPremium eid now s =
           (case removePremium eid s of
              (Inl err, s1) \<Rightarrow> (Inl err, s1)
            | (Inr u, s1) \<Rightarrow>
                (Inr (VBool False), cache_set (getCacheKey ''isPremium'' eid) (VBool False) s1)) \<and>
         (\<exists>e'. findPremium (storage s) (premiums (snd (isPremium eid now s))) eid = Some e' \<and>
               \<not> isPremium_fld e' \<and> expiresAt e' = None) \<and>
         cache (snd (removePremium eid s)) (getCacheKey ''isPremium'' eid) = None \<and>
         cache (snd (removePremium eid s)) (getCacheKey ''premiumStatus'' eid) = None \<and>
         cache (snd (isPremium eid now s)) (getCacheKey ''premiumStatus'' eid) = None \<and>
         emitted (snd (isPremium eid now s)) = emitted s @ [PremiumRemoved eid] \<and>
         ((\<forall>l\<in>set (registered ''premiumRemoved'' s). \<not> throwsOn l (PremiumRemoved eid)) \<longrightarrow>
            fst (isPremium eid now s) = Inr (VBool False) \<and>
            cache (snd (isPremium eid now s)) (getCacheKey ''isPremium'' eid) = Some (VBool False)) \<and>
         ((\<exists>l\<in>set (registered ''premiumRemoved'' s). throwsOn l (PremiumRemoved eid)) \<longrightarrow>
            (\<exists>n. fst (isPremium eid now s) = Inl (ListenerError n)) \<and>
            cache (snd (isPremium eid now s)) (getCacheKey ''isPremium'' eid) = None)"
proof -
  let ?ki = "getCacheKey ''isPremium'' eid"
  let ?ks = "getCacheKey ''premiumStatus'' eid"
  define e1 where "e1 = e\<lparr>isPremium_fld := False, expiresAt := None\<rparr>"
  define s3 where "s3 = cache_del ?ks (cache_del ?ki
      (s\<lparr>premiums := savePremium (storage s) e1 (premiums s)\<rparr>))"
  have rem: "removePremium eid s = emit (PremiumRemoved eid) s3"
    using found by (simp add: removePremium_def Let_def e1_def s3_def)
  have eff: "effective (Some e) now = VBool False"
    using flag exp gt_now_past [OF past] by (simp add: effective_def)
  have isP: "isPremium eid now s =
           (case removePremium eid s of
              (Inl err, s1) \<Rightarrow> (Inl err, s1)
            | (Inr u, s1) \<Rightarrow> (Inr (VBool False), cache_set ?ki (VBool False) s1))"
    using miss found flag
    by (simp add: isPremium_def Let_def cache_get_def eff split: prod.split sum.split)
  obtain r s' where rs: "emit (PremiumRemoved eid) s3 = (r, s')"
    by (cases "emit (PremiumRemoved eid) s3")
  note fr = emit_frame [OF rs]
  have keys: "?ks \<noteq> ?ki" by (simp add: getCacheKey_def)
  have id: "entityId e1 = eid"
    using findPremium_entityId [OF found] by (simp add: e1_def)
  have stored: "findPremium (storage s) (premiums s') eid = Some (stored_premium (storage s) e1)"
    using fr findPremium_savePremium [of "storage s" e1 "premiums s"]
    by (simp add: s3_def cache_del_def id)
  have cleared: "\<not> isPremium_fld (stored_premium (storage s) e1)"
    "expiresAt (stored_premium (storage s) e1) = None"
    by (simp_all add: e1_def)
  have snd_rem: "snd (removePremium eid s) = s'" by (simp add: rem rs)
  have snd_is: "premiums (snd (isPremium eid now s)) = premiums s'"
    "emitted (snd (isPremium eid now s)) = emitted s'"
    "cache (snd (isPremium eid now s)) ?ks = cache s' ?ks"
    using keys by (cases r; simp add: isP rem rs cache_set_def)+
  have c: "cache s' ?ki = None" "cache s' ?ks = None"
    using fr by (simp_all add: s3_def cache_del_def)
  have em: "emitted s' = emitted s @ [PremiumRemoved eid]"
    using fr by (simp add: s3_def cache_del_def)
  have ok: "fst (isPremium eid now s) = Inr (VBool False) \<and>
            cache (snd (isPremium eid now s)) ?ki = Some (VBool False)"
    if quiet: "\<forall>l\<in>set (registered ''premiumRemoved'' s). \<not> throwsOn l (PremiumRemoved eid)"
  proof -
    have "registered ''premiumRemoved'' s3 = registered ''premiumRemoved'' s"
      by (simp add: registered_def s3_def cache_del_def)
    then have "fst (emit (PremiumRemoved eid) s3) = Inr ()"
      using deliver_ok [OF quiet] by (simp add: emit_def)
    then have "r = Inr ()" using rs by simp
    then show ?thesis by (simp add: isP rem rs cache_set_def)
  qed
  have thrown: "(\<exists>n. fst (isPremium eid now s) = Inl (ListenerError n)) \<and>
            cache (snd (isPremium eid now s)) ?ki = None"
    if loud: "\<exists>l\<in>set (registered ''premiumRemoved'' s). throwsOn l (PremiumRemoved eid)"
  proof -
    have "registered ''premiumRemoved'' s3 = registered ''premiumRemoved'' s"
      by (simp add: registered_def s3_def cache_del_def)
    then obtain n where "fst (emit (PremiumRemoved eid) s3) = Inl (ListenerError n)"
      using deliver_throws [OF loud] by (auto simp add: emit_def)
    then have "r = Inl (ListenerError n)" using rs by simp
    then show ?thesis using c(1) by (simp add: isP rem rs)
  qed
  have persisted: "\<exists>e'. findPremium (storage s) (premiums (snd (isPremium eid now s))) eid = Some e' \<and>
               \<not> isPremium_fld e' \<and> expiresAt e' = None"
    unfolding snd_is using stored cleared by blast
  show ?thesis
  proof (intro conjI)
    show "isPremium eid now s =
           (case removePremium eid s of
              (Inl err, s1) \<Rightarrow> (Inl err, s1)
            | (Inr u, s1) \<Rightarrow> (Inr (VBool False), cache_set ?ki (VBool False) s1))"
      by (rule isP)
    show "\<exists>e'. findPremium (storage s) (premiums (snd (isPremium eid now s))) eid = Some e' \<and>
               \<not> isPremium_fld e' \<and> expiresAt e' = None"
      by (rule persisted)
    show "cache (snd (removePremium eid s)) ?ki = None"
      unfolding snd_rem by (rule c(1))
    show "cache (snd (removePremium eid s)) ?ks = None"
      unfolding snd_rem by (rule c(2))
    show "cache (snd (isPremium eid now s)) ?ks = None"
      unfolding snd_is by (rule c(2))
    show "emitted (snd (isPremium eid now s)) = emitted s @ [PremiumRemoved eid]"
      unfolding snd_is by (rule em)
    show "(\<forall>l\<in>set (registered ''premiumRemoved'' s). \<not> throwsOn l (PremiumRemoved eid)) \<longrightarrow>
            fst (isPremium eid now s) = Inr (VBool False) \<and>
            cache (snd (isPremium eid now s)) ?ki = Some (VBool False)"
      using ok by blast
    show "(\<exists>l\<in>set (registered ''premiumRemoved'' s). throwsOn l (PremiumRemoved eid)) \<longrightarrow>
            (\<exists>n. fst (isPremium eid now s) = Inl (ListenerError n)) \<and>
            cache (snd (isPremium eid now s)) ?ki = None"
      using thrown by blast
  qed
qed

text \<open>
  C3, as amended. When the cache has no entry under the entity's \<open>isPremium\<close> key and
  the stored entitlement is flagged premium with an expiry that is not in the future,
  isPremium runs removePremium: the entitlement is saved with the flag false and no
  expiry, both cache entries of the entity are deleted, \<open>premiumRemoved\<close> is emitted.
  When no listener of that event throws, false is then cached under the \<open>isPremium\<close>
  key and returned. When one throws, isPremium ends with that listener's exception and
  caches nothing.
\<close>

theorem isPremium_lazy_expiry_on_cache_miss:
  "cache s (getCacheKey ''isPremium'' eid) = None \<and>
   findPremium (storage s) (premiums s) eid = Some e \<and>
   isPremium_fld e \<and> expiresAt e = Some d \<and> getTime d \<le> now \<longrightarrow>
     isPremium eid now s =
       (case removePremium eid s of
          (Inl err, s1) \<Rightarrow> (Inl err, s1)
        | (Inr u, s1) \<Rightarrow>
            (Inr (VBool False), cache_set (getCacheKey ''isPremium'' eid) (VBool False) s1)) \<and>
     (\<exists>e'. findPremium (storage s) (premiums (snd (isPremium eid now s))) eid = Some e' \<and>
           \<not> isPremium_fld e' \<and> expiresAt e' = None) \<and>
     cache (snd (removePremium eid s)) (getCacheKey ''isPremium'' eid) = None \<and>
     cache (snd (removePremium eid s)) (getCacheKey ''premiumStatus'' eid) = None \<and>
     cache (snd (isPremium eid now s)) (getCacheKey ''premiumStatus'' eid) = None \<and>
     emitted (snd (isPremium eid now s)) = emitted s @ [PremiumRemoved eid] \<and>
     ((\<forall>l\<in>set (registered ''premiumRemoved'' s). \<not> throwsOn l (PremiumRemoved eid)) \<longrightarrow>
        fst (isPremium eid now s) = Inr (VBool False) \<and>
        cache (snd (isPremium eid now s)) (getCacheKey ''isPremium'' eid) = Some (VBool False)) \<and>
     ((\<exists>l\<in>set (registered ''premiumRemoved'' s). throwsOn l (PremiumRemoved eid)) \<longrightarrow>
        (\<exists>n. fst (isPremium eid now s) = Inl (ListenerError n)) \<and>
        cache (snd (isPremium eid now s)) (getCacheKey ''isPremium'' eid) = None)"
  using isPremium_expired_on_miss [of s eid e d now] by blast

text \<open>
  C3 at two concrete states, on local storage. \<open>u1\<close> was granted one day at time 0
  and nothing is cached. With no listener, isPremium at day 2 removes the premium,
  caches false and returns false. With a listener of \<open>premiumRemoved\<close> that throws,
  isPremium removes the premium and ends with the listener's exception.
\<close>

theorem isPremium_lazy_expiry_on_cache_miss_witness:
  "(let S = fold run [AddPremium ''u1'' (Some 1) ''admin'' 0]
              (new_PremiumManager local_defaults [] []);
        S1 = snd (isPremium ''u1'' 172800000 S);
        T = onPremiumRemoved (Listener 1 (\<lambda>ev. True)) S;
        T1 = snd (isPremium ''u1'' 172800000 T)
    in cache S (getCacheKey ''isPremium'' ''u1'') = None \<and>
       findPremium (storage S) (premiums S) ''u1'' =
         Some \<lparr>entityId = ''u1'', isPremium_fld = True, expiresAt = Some (IsoString 86400000),
               activatedBy = Some ''admin'', activatedAt = Some (IsoString 0)\<rparr> \<and>
       fst (isPremium ''u1'' 172800000 S) = Inr (VBool False) \<and>
       cache S1 (getCacheKey ''isPremium'' ''u1'') = Some (VBool False) \<and>
       cache S1 (getCacheKey ''premiumStatus'' ''u1'') = None \<and>
       (\<exists>e'. findPremium (storage S) (premiums S1) ''u1'' = Some e' \<and>
             \<not> isPremium_fld e' \<and> expiresAt e' = None) \<and>
       emitted S1 = emitted S @ [PremiumRemoved ''u1''] \<and>
       (\<exists>n. fst (isPremium ''u1'' 172800000 T) = Inl (ListenerError n)) \<and>
       cache T1 (getCacheKey ''isPremium'' ''u1'') = None \<and>
       (\<exists>e'. findPremium (storage T) (premiums T1) ''u1'' = Some e' \<and>
             \<not> isPremium_fld e' \<and> expiresAt e' = None))"
proof -
  define S where "S = fold run [AddPremium ''u1'' (Some 1) ''admin'' 0]
              (new_PremiumManager local_defaults [] [])"
  define S1 where "S1 = snd (isPremium ''u1'' 172800000 S)"
  define T where "T = onPremiumRemoved (Listener 1 (\<lambda>ev. True)) S"
  define T1 where "T1 = snd (isPremium ''u1'' 172800000 T)"
  let ?e = "\<lparr>entityId = ''u1'', isPremium_fld = True, expiresAt = Some (IsoString 86400000),
               activatedBy = Some ''admin'', activatedAt = Some (IsoString 0)\<rparr>"
  have miss: "cache S (getCacheKey ''isPremium'' ''u1'') = None"
    by (simp add: S_def engine_defs)
  have found: "findPremium (storage S) (premiums S) ''u1'' = Some ?e"
    by (simp add: S_def engine_defs)
  have quiet: "\<forall>l\<in>set (registered ''premiumRemoved'' S). \<not> throwsOn l (PremiumRemoved ''u1'')"
    by (simp add: S_def engine_defs)
  have missT: "cache T (getCacheKey ''isPremium'' ''u1'') = None"
    using miss by (simp add: T_def onPremiumRemoved_def on_def)
  have foundT: "findPremium (storage T) (premiums T) ''u1'' = Some ?e"
    using found by (simp add: T_def onPremiumRemoved_def on_def)
  have loud: "\<exists>l\<in>set (registered ''premiumRemoved'' T). throwsOn l (PremiumRemoved ''u1'')"
    by (simp add: T_def onPremiumRemoved_def on_def registered_def)
  have pre: "cache S (getCacheKey ''isPremium'' ''u1'') = None \<and>
      findPremium (storage S) (premiums S) ''u1'' = Some ?e \<and>
      isPremium_fld ?e \<and> expiresAt ?e = Some (IsoString 86400000) \<and>
      getTime (IsoString 86400000) \<le> 172800000"
    using miss found by simp
  have preT: "cache T (getCacheKey ''isPremium'' ''u1'') = None \<and>
      findPremium (storage T) (premiums T) ''u1'' = Some ?e \<and>
      isPremium_fld ?e \<and> expiresAt ?e = Some (IsoString 86400000) \<and>
      getTime (IsoString 86400000) \<le> 172800000"
    using missT foundT by simp
  note t = isPremium_lazy_expiry_on_cache_miss
    [of S "''u1''" ?e "IsoString 86400000" 172800000, folded S1_def]
  note u = isPremium_lazy_expiry_on_cache_miss
    [of T "''u1''" ?e "IsoString 86400000" 172800000, folded T1_def]
  have r: "fst (isPremium ''u1'' 172800000 S) = Inr (VBool False) \<and>
       cache S1 (getCacheKey ''isPremium'' ''u1'') = Some (VBool False)"
    using t pre quiet by blast
  have p: "\<exists>e'. findPremium (storage S) (premiums S1) ''u1'' = Some e' \<and>
             \<not> isPremium_fld e' \<and> expiresAt e' = None"
    using t pre by blast
  have k: "cache S1 (getCacheKey ''premiumStatus'' ''u1'') = None"
    using t pre by blast
  have e: "emitted S1 = emitted S @ [PremiumRemoved ''u1'']"
    using t pre by blast
  have rT: "(\<exists>n. fst (isPremium ''u1'' 172800000 T) = Inl (ListenerError n)) \<and>
       cache T1 (getCacheKey ''isPremium'' ''u1'') = None"
    using u preT loud by blast
  have pT: "\<exists>e'. findPremium (storage T) (premiums T1) ''u1'' = Some e' \<and>
             \<not> isPremium_fld e' \<and> expiresAt e' = None"
    using u preT by blast
  show ?thesis
    unfolding Let_def S_def [symmetric] S1_def [symmetric] T_def [symmetric] T1_def [symmetric]
    by (intro conjI miss found conjunct1 [OF r] conjunct2 [OF r] k p e
        conjunct1 [OF rT] conjunct2 [OF rT] pT)
qed

text \<open>
  C3 as stated fails: \<open>u1\<close> was granted one day at time 0 on local storage, nothing
  is cached, and a listener of \<open>premiumRemoved\<close> throws. At day 2 isPremium takes the
  removal path and does not return false: it ends with the listener's exception, and
  false is not cached.
\<close>

theorem isPremium_rejects_when_listener_throws_counterexample:
  "(let S = fold run [AddPremium ''u1'' (Some 1) ''admin'' 0]
              (onPremiumRemoved (Listener 1 (\<lambda>ev. True))
                 (new_PremiumManager local_defaults [] []))
    in cache S (getCacheKey ''isPremium'' ''u1'') = None \<and>
       findPremium (storage S) (premiums S) ''u1'' =
         Some \<lparr>entityId = ''u1'', isPremium_fld = True, expiresAt = Some (IsoString 86400000),
               activatedBy = Some ''admin'', activatedAt = Some (IsoString 0)\<rparr> \<and>
       fst (isPremium ''u1'' 172800000 S) = Inl (ListenerError 1) \<and>
       fst (isPremium ''u1'' 172800000 S) \<noteq> Inr (VBool False) \<and>
       cache (snd (isPremium ''u1'' 172800000 S)) (getCacheKey ''isPremium'' ''u1'') = None)"
  by (simp add: engine_defs onPremiumRemoved_def)

section \<open>A listener that throws\<close>






section \<open>getPremiumTimeRemaining\<close>

lemma ceil_div_ceiling: "ceil_div a b = \<lceil>real_of_int a / real_of_int b\<rceil>"
  by (simp add: ceil_div_def ceiling_divide_eq_div)

text \<open>
  C5, as amended. With the status that getPremiumStatus returns (the stored
  entitlement when nothing is cached under the entity's \<open>premiumStatus\<close> key),
  getPremiumTimeRemaining returns null when there is no status, when its flag is false
  or when it has no expiry; otherwise it returns
  \<open>max(0, ceil((expiresAt - now) / 86400000))\<close>, which is 0 once the expiry has
  passed. A number it returns is never negative.
\<close>

theorem getPremiumTimeRemaining_value:
  "fst (getPremiumTimeRemaining eid now s) =
     (case fst (getPremiumStatus eid s) of
        None \<Rightarrow> None
      | Some status \<Rightarrow>
          if isPremium_fld status
          then (case expiresAt status of
                  None \<Rightarrow> None
                | Some d \<Rightarrow> Some (max 0 \<lceil>real_of_int (getTime d - now) / 86400000\<rceil>))
          else None) \<and>
   (\<forall>n. fst (getPremiumTimeRemaining eid now s) = Some n \<longrightarrow> 0 \<le> n) \<and>
   (cache s (getCacheKey ''premiumStatus'' eid) = None \<longrightarrow>
      fst (getPremiumStatus eid s) = findPremium (storage s) (premiums s) eid)"
proof (intro conjI allI impI)
  have c: "ceil_div (a - b) 86400000 = \<lceil>(real_of_int a - real_of_int b) / 86400000\<rceil>" for a b
    using ceil_div_ceiling [of "a - b" 86400000] by simp
  show "fst (getPremiumTimeRemaining eid now s) =
     (case fst (getPremiumStatus eid s) of
        None \<Rightarrow> None
      | Some status \<Rightarrow>
          if isPremium_fld status
          then (case expiresAt status of
                  None \<Rightarrow> None
                | Some d \<Rightarrow> Some (max 0 \<lceil>real_of_int (getTime d - now) / 86400000\<rceil>))
          else None)"
    by (cases "getPremiumStatus eid s")
      (simp add: getPremiumTimeRemaining_def c split: option.splits)
next
  fix n
  assume "fst (getPremiumTimeRemaining eid now s) = Some n"
  then show "0 \<le> n"
    by (cases "getPremiumStatus eid s")
      (auto simp: getPremiumTimeRemaining_def split: option.splits if_splits)
next
  assume "cache s (getCacheKey ''premiumStatus'' eid) = None"
  then show "fst (getPremiumStatus eid s) = findPremium (storage s) (premiums s) eid"
    by (simp add: getPremiumStatus_def cache_get_def Let_def)
qed

text \<open>
  C5 at a concrete state: \<open>u1\<close> was granted 30 days at time 0, nothing is cached, and
  one millisecond later 30 days remain.
\<close>

theorem getPremiumTimeRemaining_value_witness:
  "(let S = fold run [AddPremium ''u1'' (Some 30) ''admin'' 0] (new_PremiumManager local_defaults [] [])
    in cache S (getCacheKey ''premiumStatus'' ''u1'') = None \<and>
       fst (getPremiumStatus ''u1'' S) =
         Some \<lparr>entityId = ''u1'', isPremium_fld = True, expiresAt = Some (IsoString 2592000000),
               activatedBy = Some ''admin'', activatedAt = Some (IsoString 0)\<rparr> \<and>
       fst (getPremiumTimeRemaining ''u1'' 1 S) = Some 30 \<and> (0::int) \<le> 30)"
proof -
  define S where "S = fold run [AddPremium ''u1'' (Some 30) ''admin'' 0]
      (new_PremiumManager local_defaults [] [])"
  let ?e = "\<lparr>entityId = ''u1'', isPremium_fld = True, expiresAt = Some (IsoString 2592000000),
               activatedBy = Some ''admin'', activatedAt = Some (IsoString 0)\<rparr>"
  note t = getPremiumTimeRemaining_value [of "''u1''" 1 S]
  have miss: "cache S (getCacheKey ''premiumStatus'' ''u1'') = None"
    by (simp add: S_def engine_defs)
  have f: "findPremium (storage S) (premiums S) ''u1'' = Some ?e"
    by (simp add: S_def engine_defs)
  have st: "fst (getPremiumStatus ''u1'' S) = Some ?e"
    using t miss f by simp
  have "\<lceil>real_of_int (2592000000 - 1) / 86400000\<rceil> = (30::int)"
    by (simp add: ceiling_eq_iff)
  then have r: "fst (getPremiumTimeRemaining ''u1'' 1 S) = Some 30"
    using conjunct1 [OF t] unfolding st by simp
  have n: "(0::int) \<le> 30"
    using t r by blast
  show ?thesis
    unfolding Let_def S_def [symmetric] by (intro conjI miss st r n)
qed

text \<open>
  C5 as stated fails: \<open>u1\<close> was granted one day at time 0; at day 2 the stored
  entitlement is flagged premium with its expiry in the past, and
  getPremiumTimeRemaining returns 0, not null.
\<close>

theorem getPremiumTimeRemaining_counterexample:
  "(let S = fold run [AddPremium ''u1'' (Some 1) ''admin'' 0] (new_PremiumManager mongo_defaults [] [])
    in findPremium (storage S) (premiums S) ''u1'' =
         Some \<lparr>entityId = ''u1'', isPremium_fld = True, expiresAt = Some (DateObj 86400000),
               activatedBy = Some ''admin'', activatedAt = Some (DateObj 0)\<rparr> \<and>
       fst (getPremiumTimeRemaining ''u1'' 172800000 S) = Some 0)"
  by (simp add: engine_defs)

section \<open>Preloading\<close>

text \<open>
  C6 at a failing input. A manager constructed with \<open>preloadTables: true\<close> over a
  storage that holds an entitlement and a code has an empty cache: the constructor
  does not call preloadTables. clearCache does, and sets the three keys.
\<close>

theorem constructor_does_not_preload:
  "(let p = \<lparr>entityId = ''u1'', isPremium_fld = True, expiresAt = Some (DateObj 86400000),
             activatedBy = Some ''admin'', activatedAt = Some (DateObj 0)\<rparr>;
        c = \<lparr>code = ''abc'', duration = Some 30, maxActivations = Some 1, activations = [],
             createdBy = ''admin'', createdAt = DateObj 0\<rparr>;
        S = new_PremiumManager (mongo_defaults\<lparr>u_preloadTables := Given True\<rparr>) [p] [c]
    in preloadTables_cfg (config S) = Some True \<and>
       cache S (getCacheKey ''isPremium'' ''u1'') = None \<and>
       cache S (getCacheKey ''premiumStatus'' ''u1'') = None \<and>
       cache S (getCacheKey ''premiumCodeInfo'' ''abc'') = None \<and>
       cache (clearCache S) (getCacheKey ''isPremium'' ''u1'') = Some (VBool True) \<and>
       cache (clearCache S) (getCacheKey ''premiumStatus'' ''u1'') = Some (VPremium p) \<and>
       cache (clearCache S) (getCacheKey ''premiumCodeInfo'' ''abc'') = Some (VCode c))"
  by (simp add: engine_defs)

section \<open>checkExpiredPremiums\<close>

text \<open>
  C7 at a failing input. \<open>u1\<close> is granted one day at time 0 and the sweep runs at day
  10. On local storage the expiry read back from the file is an ISO string, the filter
  \<open>p.expiresAt < now\<close> is false for it, and the sweep removes nothing; on the
  database the same entitlement is removed.
\<close>

theorem local_sweep_removes_nothing:
  "(let L = fold run [AddPremium ''u1'' (Some 1) ''admin'' 0] (new_PremiumManager local_defaults [] []);
        M = fold run [AddPremium ''u1'' (Some 1) ''admin'' 0] (new_PremiumManager mongo_defaults [] [])
    in premiums L =
         [\<lparr>entityId = ''u1'', isPremium_fld = True, expiresAt = Some (IsoString 86400000),
           activatedBy = Some ''admin'', activatedAt = Some (IsoString 0)\<rparr>] \<and>
       checkExpiredPremiums 864000000 L = (Inr (), L) \<and>
       premiums M =
         [\<lparr>entityId = ''u1'', isPremium_fld = True, expiresAt = Some (DateObj 86400000),
           activatedBy = Some ''admin'', activatedAt = Some (DateObj 0)\<rparr>] \<and>
       premiums (snd (checkExpiredPremiums 864000000 M)) =
         [\<lparr>entityId = ''u1'', isPremium_fld = False, expiresAt = None,
           activatedBy = Some ''admin'', activatedAt = Some (DateObj 0)\<rparr>])"
proof -
  define L where "L = fold run [AddPremium ''u1'' (Some 1) ''admin'' 0]
      (new_PremiumManager local_defaults [] [])"
  define M where "M = fold run [AddPremium ''u1'' (Some 1) ''admin'' 0]
      (new_PremiumManager mongo_defaults [] [])"
  have pl: "premiums L =
         [\<lparr>entityId = ''u1'', isPremium_fld = True, expiresAt = Some (IsoString 86400000),
           activatedBy = Some ''admin'', activatedAt = Some (IsoString 0)\<rparr>]"
    and sl: "storage L = Local"
    by (simp_all add: L_def engine_defs)
  have cl: "checkExpiredPremiums 864000000 L = (Inr (), L)"
    by (simp add: checkExpiredPremiums_def findExpiredPremiums_def
        LocalStorage_findExpiredPremiums_def pl sl)
  have pm: "premiums M =
         [\<lparr>entityId = ''u1'', isPremium_fld = True, expiresAt = Some (DateObj 86400000),
           activatedBy = Some ''admin'', activatedAt = Some (DateObj 0)\<rparr>]"
    by (simp add: M_def engine_defs)
  have cm: "premiums (snd (checkExpiredPremiums 864000000 M)) =
         [\<lparr>entityId = ''u1'', isPremium_fld = False, expiresAt = None,
           activatedBy = Some ''admin'', activatedAt = Some (DateObj 0)\<rparr>]"
    by (simp add: M_def engine_defs)
  show ?thesis
    unfolding Let_def L_def [symmetric] M_def [symmetric] by (intro conjI pl cl pm cm)
qed

section \<open>What isPremium caches for an unknown entity\<close>

text \<open>
  C9 at a failing input. For an entity that has no entitlement, isPremium returns false
  but puts the value undefined under the entity's \<open>isPremium\<close> key, not the boolean
  it returns; the cache hands that back as null, and a second call returns null.
\<close>

theorem isPremium_caches_undefined_for_unknown_entity:
  "(let S = new_PremiumManager local_defaults [] [];
        S1 = snd (isPremium ''u1'' 0 S)
    in fst (isPremium ''u1'' 0 S) = Inr (VBool False) \<and>
       cache S1 (getCacheKey ''isPremium'' ''u1'') = Some VUndefined \<and>
       isPremium ''u1'' 0 S1 = (Inr VNull, S1))"
proof -
  define S1 where "S1 = snd (isPremium ''u1'' 0 (new_PremiumManager local_defaults [] []))"
  have r: "fst (isPremium ''u1'' 0 (new_PremiumManager local_defaults [] [])) = Inr (VBool False)"
    by (simp add: engine_defs)
  have c: "cache S1 (getCacheKey ''isPremium'' ''u1'') = Some VUndefined"
    by (simp add: S1_def engine_defs)
  have again: "isPremium ''u1'' 0 S1 = (Inr VNull, S1)"
    by (simp add: isPremium_def cache_get_def c Let_def)
  show ?thesis
    unfolding Let_def S1_def [symmetric] by (intro conjI r c again)
qed

section \<open>Saving a code whose token is already stored\<close>

text \<open>
  C2 at a failing input. The token \<open>abc\<close> is created twice, the second time with a
  duration of 7 days. On the database the second save is rejected with a duplicate-key
  error and the stored code keeps its 30 days; on local storage it succeeds and the
  stored code is overwritten.
\<close>

theorem savePremiumCode_backends_differ_on_stored_token:
  "(let M = snd (createPremiumCode ''abc'' ''admin'' Omitted Omitted 0
                   (new_PremiumManager mongo_defaults [] []));
        L = snd (createPremiumCode ''abc'' ''admin'' Omitted Omitted 0
                   (new_PremiumManager local_defaults [] []))
    in fst (createPremiumCode ''abc'' ''admin'' (Num 7) Omitted 5 M) = Inl (DuplicateKey ''abc'') \<and>
       map duration (codes (snd (createPremiumCode ''abc'' ''admin'' (Num 7) Omitted 5 M))) =
         [Some 30] \<and>
       fst (createPremiumCode ''abc'' ''admin'' (Num 7) Omitted 5 L) = Inr ''abc'' \<and>
       map duration (codes (snd (createPremiumCode ''abc'' ''admin'' (Num 7) Omitted 5 L))) =
         [Some 7])"
  by (simp add: engine_defs)

end
